theory Spec2Isabelle
  imports Main "HOL-Library.Word"
begin

unbundle bit_operations_syntax

section \<open>The Vulkan types and constants the book's code uses\<close>

text \<open>
  The code includes \<^verbatim>\<open><vulkan/vulkan.h>\<close> (Vulkan 1.0). The enumerators and bit values below
  are the ones of that header; flag types are \<^verbatim>\<open>uint32_t\<close> bit masks, handles are 64-bit values.
\<close>

type_synonym VkFlags = "32 word"
type_synonym VkAccessFlags = VkFlags
type_synonym VkImageAspectFlags = VkFlags
type_synonym VkPipelineStageFlags = VkFlags
type_synonym VkDependencyFlags = VkFlags
type_synonym VkImage = "64 word"
type_synonym VkCommandBuffer = "64 word"
type_synonym pointer = "64 word"

text \<open>\<^verbatim>\<open>VkImageLayout\<close>: every enumerator of the Vulkan 1.0 header with the swapchain extension.\<close>

datatype VkImageLayout =
    VK_IMAGE_LAYOUT_UNDEFINED
  | VK_IMAGE_LAYOUT_GENERAL
  | VK_IMAGE_LAYOUT_COLOR_ATTACHMENT_OPTIMAL
  | VK_IMAGE_LAYOUT_DEPTH_STENCIL_ATTACHMENT_OPTIMAL
  | VK_IMAGE_LAYOUT_DEPTH_STENCIL_READ_ONLY_OPTIMAL
  | VK_IMAGE_LAYOUT_SHADER_READ_ONLY_OPTIMAL
  | VK_IMAGE_LAYOUT_TRANSFER_SRC_OPTIMAL
  | VK_IMAGE_LAYOUT_TRANSFER_DST_OPTIMAL
  | VK_IMAGE_LAYOUT_PREINITIALIZED
  | VK_IMAGE_LAYOUT_PRESENT_SRC_KHR

definition NULL :: pointer where
  "NULL = 0"

definition VK_ACCESS_SHADER_READ_BIT :: VkAccessFlags where
  "VK_ACCESS_SHADER_READ_BIT = 0x00000020"

definition VK_ACCESS_COLOR_ATTACHMENT_WRITE_BIT :: VkAccessFlags where
  "VK_ACCESS_COLOR_ATTACHMENT_WRITE_BIT = 0x00000100"

definition VK_ACCESS_DEPTH_STENCIL_ATTACHMENT_WRITE_BIT :: VkAccessFlags where
  "VK_ACCESS_DEPTH_STENCIL_ATTACHMENT_WRITE_BIT = 0x00000400"

definition VK_ACCESS_TRANSFER_READ_BIT :: VkAccessFlags where
  "VK_ACCESS_TRANSFER_READ_BIT = 0x00000800"

definition VK_ACCESS_TRANSFER_WRITE_BIT :: VkAccessFlags where
  "VK_ACCESS_TRANSFER_WRITE_BIT = 0x00001000"

definition VK_ACCESS_HOST_WRITE_BIT :: VkAccessFlags where
  "VK_ACCESS_HOST_WRITE_BIT = 0x00004000"

definition VK_PIPELINE_STAGE_TOP_OF_PIPE_BIT :: VkPipelineStageFlags where
  "VK_PIPELINE_STAGE_TOP_OF_PIPE_BIT = 0x00000001"

definition VK_DEPENDENCY_BY_REGION_BIT :: VkDependencyFlags where
  "VK_DEPENDENCY_BY_REGION_BIT = 0x00000001"

definition VK_STRUCTURE_TYPE_IMAGE_MEMORY_BARRIER :: "32 word" where
  "VK_STRUCTURE_TYPE_IMAGE_MEMORY_BARRIER = 45"

text \<open>\<^verbatim>\<open>#define VK_QUEUE_FAMILY_IGNORED (~0U)\<close>\<close>

definition VK_QUEUE_FAMILY_IGNORED :: "32 word" where
  "VK_QUEUE_FAMILY_IGNORED = NOT 0"

section \<open>Image memory barriers\<close>

record VkImageSubresourceRange =
  aspectMask :: VkImageAspectFlags
  baseMipLevel :: "32 word"
  levelCount :: "32 word"
  baseArrayLayer :: "32 word"
  layerCount :: "32 word"

text \<open>
  \<^verbatim>\<open>VkImageMemoryBarrier\<close> as the chapter prints it. The field \<^verbatim>\<open>image\<close> is \<open>image_h\<close> here.
\<close>

record VkImageMemoryBarrier =
  sType :: "32 word"
  pNext :: pointer
  srcAccessMask :: VkAccessFlags
  dstAccessMask :: VkAccessFlags
  oldLayout :: VkImageLayout
  newLayout :: VkImageLayout
  srcQueueFamilyIndex :: "32 word"
  dstQueueFamilyIndex :: "32 word"
  image_h :: VkImage
  subresourceRange :: VkImageSubresourceRange

text \<open>
  \<^verbatim>\<open>VkImageMemoryBarrier imageBarrier = {};\<close> value-initialises the struct: every scalar is
  zero, and the enumerator with value 0 of \<^verbatim>\<open>VkImageLayout\<close> is \<^verbatim>\<open>VK_IMAGE_LAYOUT_UNDEFINED\<close>.
\<close>

definition zero_VkImageMemoryBarrier :: VkImageMemoryBarrier where
  "zero_VkImageMemoryBarrier =
     \<lparr> sType = 0, pNext = 0, srcAccessMask = 0, dstAccessMask = 0,
       oldLayout = VK_IMAGE_LAYOUT_UNDEFINED, newLayout = VK_IMAGE_LAYOUT_UNDEFINED,
       srcQueueFamilyIndex = 0, dstQueueFamilyIndex = 0, image_h = 0,
       subresourceRange =
         \<lparr> aspectMask = 0, baseMipLevel = 0, levelCount = 0,
           baseArrayLayer = 0, layerCount = 0 \<rparr> \<rparr>"

text \<open>The first block of \<^verbatim>\<open>setImageLayout\<close>: the declaration and the field assignments.\<close>

definition imageBarrier_init ::
  "VkImage \<Rightarrow> VkImageAspectFlags \<Rightarrow> VkImageLayout \<Rightarrow> VkImageLayout \<Rightarrow> VkImageMemoryBarrier"
where
  "imageBarrier_init img aspects old_layout new_layout =
     (let b0 = zero_VkImageMemoryBarrier;
          b1 = b0\<lparr>sType := VK_STRUCTURE_TYPE_IMAGE_MEMORY_BARRIER\<rparr>;
          b2 = b1\<lparr>pNext := NULL\<rparr>;
          b3 = b2\<lparr>oldLayout := old_layout\<rparr>;
          b4 = b3\<lparr>newLayout := new_layout\<rparr>;
          b5 = b4\<lparr>image_h := img\<rparr>;
          b6 = b5\<lparr>subresourceRange := (subresourceRange b5)\<lparr>aspectMask := aspects\<rparr>\<rparr>;
          b7 = b6\<lparr>subresourceRange := (subresourceRange b6)\<lparr>baseMipLevel := 0\<rparr>\<rparr>;
          b8 = b7\<lparr>subresourceRange := (subresourceRange b7)\<lparr>levelCount := 1\<rparr>\<rparr>;
          b9 = b8\<lparr>subresourceRange := (subresourceRange b8)\<lparr>layerCount := 1\<rparr>\<rparr>
      in b9)"

text \<open>\<^verbatim>\<open>switch (oldLayout)\<close>: five cases, no default.\<close>

fun switch_oldLayout :: "VkImageLayout \<Rightarrow> VkImageMemoryBarrier \<Rightarrow> VkImageMemoryBarrier" where
  "switch_oldLayout VK_IMAGE_LAYOUT_PREINITIALIZED b =
     b\<lparr>srcAccessMask := VK_ACCESS_HOST_WRITE_BIT OR VK_ACCESS_TRANSFER_WRITE_BIT\<rparr>"
| "switch_oldLayout VK_IMAGE_LAYOUT_COLOR_ATTACHMENT_OPTIMAL b =
     b\<lparr>srcAccessMask := VK_ACCESS_COLOR_ATTACHMENT_WRITE_BIT\<rparr>"
| "switch_oldLayout VK_IMAGE_LAYOUT_DEPTH_STENCIL_ATTACHMENT_OPTIMAL b =
     b\<lparr>srcAccessMask := VK_ACCESS_DEPTH_STENCIL_ATTACHMENT_WRITE_BIT\<rparr>"
| "switch_oldLayout VK_IMAGE_LAYOUT_TRANSFER_SRC_OPTIMAL b =
     b\<lparr>srcAccessMask := VK_ACCESS_TRANSFER_READ_BIT\<rparr>"
| "switch_oldLayout VK_IMAGE_LAYOUT_SHADER_READ_ONLY_OPTIMAL b =
     b\<lparr>srcAccessMask := VK_ACCESS_SHADER_READ_BIT\<rparr>"
| "switch_oldLayout _ b = b"

text \<open>\<^verbatim>\<open>switch (newLayout)\<close>: five cases, no default; the statements of a case in source order.\<close>

fun switch_newLayout :: "VkImageLayout \<Rightarrow> VkImageMemoryBarrier \<Rightarrow> VkImageMemoryBarrier" where
  "switch_newLayout VK_IMAGE_LAYOUT_TRANSFER_DST_OPTIMAL b =
     b\<lparr>dstAccessMask := VK_ACCESS_TRANSFER_WRITE_BIT\<rparr>"
| "switch_newLayout VK_IMAGE_LAYOUT_TRANSFER_SRC_OPTIMAL b =
     (let b1 = b\<lparr>srcAccessMask := srcAccessMask b OR VK_ACCESS_TRANSFER_READ_BIT\<rparr>
      in b1\<lparr>dstAccessMask := VK_ACCESS_TRANSFER_READ_BIT\<rparr>)"
| "switch_newLayout VK_IMAGE_LAYOUT_COLOR_ATTACHMENT_OPTIMAL b =
     (let b1 = b\<lparr>dstAccessMask := VK_ACCESS_COLOR_ATTACHMENT_WRITE_BIT\<rparr>
      in b1\<lparr>srcAccessMask := VK_ACCESS_TRANSFER_READ_BIT\<rparr>)"
| "switch_newLayout VK_IMAGE_LAYOUT_DEPTH_STENCIL_ATTACHMENT_OPTIMAL b =
     b\<lparr>dstAccessMask := dstAccessMask b OR VK_ACCESS_DEPTH_STENCIL_ATTACHMENT_WRITE_BIT\<rparr>"
| "switch_newLayout VK_IMAGE_LAYOUT_SHADER_READ_ONLY_OPTIMAL b =
     (let b1 = b\<lparr>srcAccessMask := VK_ACCESS_HOST_WRITE_BIT OR VK_ACCESS_TRANSFER_WRITE_BIT\<rparr>
      in b1\<lparr>dstAccessMask := VK_ACCESS_SHADER_READ_BIT\<rparr>)"
| "switch_newLayout _ b = b"

section \<open>Recording the pipeline barrier\<close>

text \<open>
  The two other barrier structs of \<^verbatim>\<open>vkCmdPipelineBarrier\<close> are never built by the code,
  which passes \<^verbatim>\<open>NULL\<close> for both arrays.
\<close>

typedecl VkMemoryBarrier
typedecl VkBufferMemoryBarrier

text \<open>
  A recorded \<^verbatim>\<open>vkCmdPipelineBarrier\<close>: the arguments of the call after the command buffer, in
  the order of the prototype. An array argument is \<open>None\<close> for \<^verbatim>\<open>NULL\<close> and otherwise the
  elements it points to.
\<close>

record CmdPipelineBarrier =
  srcStageMask :: VkPipelineStageFlags
  dstStageMask :: VkPipelineStageFlags
  dependencyFlags :: VkDependencyFlags
  memoryBarrierCount :: "32 word"
  pMemoryBarriers :: "VkMemoryBarrier list option"
  bufferMemoryBarrierCount :: "32 word"
  pBufferMemoryBarriers :: "VkBufferMemoryBarrier list option"
  imageMemoryBarrierCount :: "32 word"
  pImageMemoryBarriers :: "VkImageMemoryBarrier list option"

text \<open>
  The command buffers of the device: for each handle, the commands recorded into it so far,
  oldest first. \<^verbatim>\<open>vkCmdPipelineBarrier\<close> appends one command to the buffer it is given.
\<close>

type_synonym recording = "VkCommandBuffer \<Rightarrow> CmdPipelineBarrier list"

definition vkCmdPipelineBarrier ::
  "recording \<Rightarrow> VkCommandBuffer \<Rightarrow> VkPipelineStageFlags \<Rightarrow> VkPipelineStageFlags \<Rightarrow>
   VkDependencyFlags \<Rightarrow> 32 word \<Rightarrow> VkMemoryBarrier list option \<Rightarrow>
   32 word \<Rightarrow> VkBufferMemoryBarrier list option \<Rightarrow>
   32 word \<Rightarrow> VkImageMemoryBarrier list option \<Rightarrow> recording"
where
  "vkCmdPipelineBarrier rec commandBuffer srcMask dstMask depFlags
       nMem pMem nBuf pBuf nImg pImg =
     rec(commandBuffer := rec commandBuffer @
       [\<lparr> srcStageMask = srcMask, dstStageMask = dstMask, dependencyFlags = depFlags,
          memoryBarrierCount = nMem, pMemoryBarriers = pMem,
          bufferMemoryBarrierCount = nBuf, pBufferMemoryBarriers = pBuf,
          imageMemoryBarrierCount = nImg, pImageMemoryBarriers = pImg \<rparr>])"

section \<open>setImageLayout\<close>

text \<open>The barrier \<^verbatim>\<open>imageBarrier\<close> after the first switch, and after the second.\<close>

definition imageBarrier_after_old ::
  "VkImage \<Rightarrow> VkImageAspectFlags \<Rightarrow> VkImageLayout \<Rightarrow> VkImageLayout \<Rightarrow> VkImageMemoryBarrier"
where
  "imageBarrier_after_old img aspects old_layout new_layout =
     switch_oldLayout old_layout (imageBarrier_init img aspects old_layout new_layout)"

definition imageBarrier_final ::
  "VkImage \<Rightarrow> VkImageAspectFlags \<Rightarrow> VkImageLayout \<Rightarrow> VkImageLayout \<Rightarrow> VkImageMemoryBarrier"
where
  "imageBarrier_final img aspects old_layout new_layout =
     switch_newLayout new_layout (imageBarrier_after_old img aspects old_layout new_layout)"

text \<open>
  \<^verbatim>\<open>void setImageLayout(VkCommandBuffer cmdBuffer, VkImage image, VkImageAspectFlags aspects,
  VkImageLayout oldLayout, VkImageLayout newLayout)\<close>: the blocks of the chapter in order.
  The function returns nothing; its effect is the new state of the command buffers.
\<close>

definition setImageLayout ::
  "recording \<Rightarrow> VkCommandBuffer \<Rightarrow> VkImage \<Rightarrow> VkImageAspectFlags \<Rightarrow>
   VkImageLayout \<Rightarrow> VkImageLayout \<Rightarrow> recording"
where
  "setImageLayout rec cmdBuffer img aspects old_layout new_layout =
     (let imageBarrier = imageBarrier_final img aspects old_layout new_layout;
          srcFlags = VK_PIPELINE_STAGE_TOP_OF_PIPE_BIT;
          dstFlags = VK_PIPELINE_STAGE_TOP_OF_PIPE_BIT
      in vkCmdPipelineBarrier rec cmdBuffer srcFlags dstFlags 0 0 None 0 None 1
           (Some [imageBarrier]))"

text \<open>The state in which no command has been recorded into any command buffer.\<close>

definition empty_recording :: recording where
  "empty_recording = (\<lambda>_. [])"

subsection \<open>Two variants, for comparison with the code\<close>

text \<open>
  The switch on the new layout with the merge of the depth-stencil case
  (\<^verbatim>\<open>dstAccessMask |= ...\<close>) replaced by a plain assignment; every other case as in the code.
\<close>

fun switch_newLayout_assign_dst ::
  "VkImageLayout \<Rightarrow> VkImageMemoryBarrier \<Rightarrow> VkImageMemoryBarrier"
where
  "switch_newLayout_assign_dst VK_IMAGE_LAYOUT_DEPTH_STENCIL_ATTACHMENT_OPTIMAL b =
     b\<lparr>dstAccessMask := VK_ACCESS_DEPTH_STENCIL_ATTACHMENT_WRITE_BIT\<rparr>"
| "switch_newLayout_assign_dst new_layout b = switch_newLayout new_layout b"

definition setImageLayout_assign_dst ::
  "recording \<Rightarrow> VkCommandBuffer \<Rightarrow> VkImage \<Rightarrow> VkImageAspectFlags \<Rightarrow>
   VkImageLayout \<Rightarrow> VkImageLayout \<Rightarrow> recording"
where
  "setImageLayout_assign_dst rec cmdBuffer img aspects old_layout new_layout =
     (let imageBarrier = switch_newLayout_assign_dst new_layout
            (imageBarrier_after_old img aspects old_layout new_layout);
          srcFlags = VK_PIPELINE_STAGE_TOP_OF_PIPE_BIT;
          dstFlags = VK_PIPELINE_STAGE_TOP_OF_PIPE_BIT
      in vkCmdPipelineBarrier rec cmdBuffer srcFlags dstFlags 0 0 None 0 None 1
           (Some [imageBarrier]))"

text \<open>
  The switch on the new layout with the merge of the transfer-source case
  (\<^verbatim>\<open>srcAccessMask |= ...\<close>) replaced by a plain assignment; every other case as in the code.
\<close>

fun switch_newLayout_assign_src ::
  "VkImageLayout \<Rightarrow> VkImageMemoryBarrier \<Rightarrow> VkImageMemoryBarrier"
where
  "switch_newLayout_assign_src VK_IMAGE_LAYOUT_TRANSFER_SRC_OPTIMAL b =
     (let b1 = b\<lparr>srcAccessMask := VK_ACCESS_TRANSFER_READ_BIT\<rparr>
      in b1\<lparr>dstAccessMask := VK_ACCESS_TRANSFER_READ_BIT\<rparr>)"
| "switch_newLayout_assign_src new_layout b = switch_newLayout new_layout b"

definition setImageLayout_assign_src ::
  "recording \<Rightarrow> VkCommandBuffer \<Rightarrow> VkImage \<Rightarrow> VkImageAspectFlags \<Rightarrow>
   VkImageLayout \<Rightarrow> VkImageLayout \<Rightarrow> recording"
where
  "setImageLayout_assign_src rec cmdBuffer img aspects old_layout new_layout =
     (let imageBarrier = switch_newLayout_assign_src new_layout
            (imageBarrier_after_old img aspects old_layout new_layout);
          srcFlags = VK_PIPELINE_STAGE_TOP_OF_PIPE_BIT;
          dstFlags = VK_PIPELINE_STAGE_TOP_OF_PIPE_BIT
      in vkCmdPipelineBarrier rec cmdBuffer srcFlags dstFlags 0 0 None 0 None 1
           (Some [imageBarrier]))"

section \<open>The example application: devices and surface\<close>

text \<open>
  \<^verbatim>\<open>VkResult\<close>, \<^verbatim>\<open>VkFormat\<close> and \<^verbatim>\<open>VkColorSpaceKHR\<close> are C enumerations; the code
  compares them by value only, so they are integers here, with the header's values.
\<close>

type_synonym VkResult = int
type_synonym VkFormat = int
type_synonym VkColorSpaceKHR = int
type_synonym VkPhysicalDevice = "64 word"
type_synonym VkDevice = "64 word"
type_synonym VkSurfaceKHR = "64 word"

definition VK_SUCCESS :: VkResult where
  "VK_SUCCESS = 0"

definition VK_ERROR_INITIALIZATION_FAILED :: VkResult where
  "VK_ERROR_INITIALIZATION_FAILED = - 3"

definition VK_FORMAT_UNDEFINED :: VkFormat where
  "VK_FORMAT_UNDEFINED = 0"

definition VK_FORMAT_B8G8R8A8_UNORM :: VkFormat where
  "VK_FORMAT_B8G8R8A8_UNORM = 44"

definition VK_FORMAT_R8G8B8A8_UNORM :: VkFormat where
  "VK_FORMAT_R8G8B8A8_UNORM = 37"

record VkSurfaceFormatKHR =
  format :: VkFormat
  colorSpace :: VkColorSpaceKHR

text \<open>
  \<^verbatim>\<open>exitOnError(msg)\<close> shows the message and calls \<^verbatim>\<open>exit(EXIT_FAILURE)\<close>: the function that
  calls it does not continue. A function that can reach it returns either the exit or the
  new state of the object.
\<close>

datatype exit = ExitOnError string

text \<open>
  The members of \<^verbatim>\<open>VulkanExample\<close> that \<^verbatim>\<open>initDevices\<close> and \<^verbatim>\<open>initSurface\<close> assign. The
  member \<^verbatim>\<open>colorSpace\<close> is \<open>colorSpace_m\<close> here, the struct field keeps the name.
\<close>

record VulkanExample =
  physicalDevice :: VkPhysicalDevice
  device :: VkDevice
  surface :: VkSurfaceKHR
  colorFormat :: VkFormat
  colorSpace_m :: VkColorSpaceKHR

text \<open>
  A Vulkan query that fills a caller's array writes elements from index 0 on and never
  beyond the end of the array: \<open>write_array xs ws\<close> is the array \<open>xs\<close> after \<open>ws\<close> was
  written to it.
\<close>

definition write_array :: "'a list \<Rightarrow> 'a list \<Rightarrow> 'a list" where
  "write_array xs ws = take (length xs) ws @ drop (length ws) xs"

subsection \<open>initDevices\<close>

text \<open>
  What the Vulkan implementation answers to the calls of \<^verbatim>\<open>initDevices\<close>: the result and the
  count of the first \<^verbatim>\<open>vkEnumeratePhysicalDevices\<close> (array \<^verbatim>\<open>NULL\<close>); the result, the count
  and the handles written by the second; the result and the handle of \<^verbatim>\<open>vkCreateDevice\<close>.
\<close>

record DevicesEnv =
  enumerate_count_result :: VkResult
  enumerate_count :: "32 word"
  enumerate_fill_result :: VkResult
  enumerate_fill_count :: "32 word"
  enumerate_fill_written :: "VkPhysicalDevice list"
  createDevice_result :: VkResult
  createDevice_device :: VkDevice

text \<open>\<^verbatim>\<open>std::vector<VkPhysicalDevice> physicalDevices(deviceCount)\<close> after the second call.\<close>

definition physicalDevices_of :: "DevicesEnv \<Rightarrow> VkPhysicalDevice list" where
  "physicalDevices_of env =
     write_array (replicate (unat (enumerate_count env)) 0) (enumerate_fill_written env)"

text \<open>
  \<^verbatim>\<open>VulkanExample::initDevices\<close> up to the creation of the logical device. The loop that
  follows only reads the properties of the devices and prints them; it assigns no member
  and has no exit.
\<close>

definition initDevices :: "DevicesEnv \<Rightarrow> VulkanExample \<Rightarrow> exit + VulkanExample" where
  "initDevices env s =
     (let result = enumerate_count_result env;
          deviceCount = enumerate_count env
      in if result \<noteq> VK_SUCCESS
         then Inl (ExitOnError ''Failed to enumerate physical devices in the system.'')
         else if deviceCount < 1
         then Inl (ExitOnError
           (''vkEnumeratePhysicalDevices did not report any availible '' @
            ''devices that support Vulkan. Do you have a compatible Vulkan '' @
            ''installable client driver (ICD)?''))
         else
           let physicalDevices = physicalDevices_of env;
               result = enumerate_fill_result env
           in if result \<noteq> VK_SUCCESS
              then Inl (ExitOnError ''Failed to enumerate physical devices in the system.'')
              else
                let s1 = s\<lparr>physicalDevice := physicalDevices ! 0\<rparr>;
                    result = createDevice_result env;
                    s2 = s1\<lparr>device := createDevice_device env\<rparr>
                in if result \<noteq> VK_SUCCESS
                   then Inl (ExitOnError ''Failed to create a Vulkan logical device.'')
                   else Inr s2)"

subsection \<open>initSurface\<close>

text \<open>
  What the platform and the Vulkan implementation answer to the calls of \<^verbatim>\<open>initSurface\<close>:
  the result and the handle of the surface creation; the result and the count of the first
  \<^verbatim>\<open>vkGetPhysicalDeviceSurfaceFormatsKHR\<close> (array \<^verbatim>\<open>NULL\<close>); the result, the count and the
  formats written by the second.
\<close>

record SurfaceEnv =
  createSurface_result :: VkResult
  createSurface_surface :: VkSurfaceKHR
  formats_count_result :: VkResult
  formats_count :: "32 word"
  formats_fill_result :: VkResult
  formats_fill_count :: "32 word"
  formats_fill_written :: "VkSurfaceFormatKHR list"

text \<open>\<^verbatim>\<open>std::vector<VkSurfaceFormatKHR> surfaceFormats(formatCount)\<close> after the second call.\<close>

definition surfaceFormats_of :: "SurfaceEnv \<Rightarrow> VkSurfaceFormatKHR list" where
  "surfaceFormats_of env =
     write_array (replicate (unat (formats_count env)) \<lparr>format = 0, colorSpace = 0\<rparr>)
       (formats_fill_written env)"

definition initSurface :: "SurfaceEnv \<Rightarrow> VulkanExample \<Rightarrow> exit + VulkanExample" where
  "initSurface env s =
     (let result = createSurface_result env;
          s1 = s\<lparr>surface := createSurface_surface env\<rparr>
      in if result \<noteq> VK_SUCCESS then Inl (ExitOnError ''Failed to create VkSurfaceKHR.'')
         else
           let formatCount = formats_count env;
               result = formats_count_result env
           in if result \<noteq> VK_SUCCESS \<or> formatCount < 1
              then Inl (ExitOnError ''Failed to get device surface formats.'')
              else
                let surfaceFormats = surfaceFormats_of env;
                    formatCount = formats_fill_count env;
                    result = formats_fill_result env
                in if result \<noteq> VK_SUCCESS \<or> formatCount < 1
                   then Inl (ExitOnError ''Failed to get device surface formats.'')
                   else
                     let s2 =
                           (if formatCount = 1 \<and>
                               format (surfaceFormats ! 0) = VK_FORMAT_UNDEFINED
                            then s1\<lparr>colorFormat := VK_FORMAT_B8G8R8A8_UNORM\<rparr>
                            else if formatCount \<ge> 1
                            then s1\<lparr>colorFormat := format (surfaceFormats ! 0)\<rparr>
                            else s1)
                     in Inr (s2\<lparr>colorSpace_m := colorSpace (surfaceFormats ! 0)\<rparr>))"

section \<open>Helper facts\<close>

lemmas vk_access_defs =
  VK_ACCESS_SHADER_READ_BIT_def VK_ACCESS_COLOR_ATTACHMENT_WRITE_BIT_def
  VK_ACCESS_DEPTH_STENCIL_ATTACHMENT_WRITE_BIT_def VK_ACCESS_TRANSFER_READ_BIT_def
  VK_ACCESS_TRANSFER_WRITE_BIT_def VK_ACCESS_HOST_WRITE_BIT_def

lemma imageBarrier_init_masks:
  "srcAccessMask (imageBarrier_init img aspects old_layout new_layout) = 0"
  "dstAccessMask (imageBarrier_init img aspects old_layout new_layout) = 0"
  by (simp_all add: imageBarrier_init_def zero_VkImageMemoryBarrier_def Let_def)

lemma switch_oldLayout_dst:
  "dstAccessMask (switch_oldLayout old_layout b) = dstAccessMask b"
  by (cases old_layout) simp_all

lemma imageBarrier_after_old_dst:
  "dstAccessMask (imageBarrier_after_old img aspects old_layout new_layout) = 0"
  by (simp add: imageBarrier_after_old_def switch_oldLayout_dst imageBarrier_init_masks)

text \<open>The two switches change nothing but the two access masks.\<close>

lemma switch_oldLayout_more:
  "switch_oldLayout old_layout b = b\<lparr>srcAccessMask := srcAccessMask (switch_oldLayout old_layout b)\<rparr>"
  by (cases old_layout) simp_all

lemma switch_newLayout_more:
  "switch_newLayout new_layout b =
     b\<lparr>srcAccessMask := srcAccessMask (switch_newLayout new_layout b),
       dstAccessMask := dstAccessMask (switch_newLayout new_layout b)\<rparr>"
  by (cases new_layout) (simp_all add: Let_def)

lemma imageBarrier_final_fields:
  "sType (imageBarrier_final img aspects old_layout new_layout) =
     VK_STRUCTURE_TYPE_IMAGE_MEMORY_BARRIER"
  "pNext (imageBarrier_final img aspects old_layout new_layout) = NULL"
  "oldLayout (imageBarrier_final img aspects old_layout new_layout) = old_layout"
  "newLayout (imageBarrier_final img aspects old_layout new_layout) = new_layout"
  "image_h (imageBarrier_final img aspects old_layout new_layout) = img"
  "srcQueueFamilyIndex (imageBarrier_final img aspects old_layout new_layout) = 0"
  "dstQueueFamilyIndex (imageBarrier_final img aspects old_layout new_layout) = 0"
  "subresourceRange (imageBarrier_final img aspects old_layout new_layout) =
     \<lparr> aspectMask = aspects, baseMipLevel = 0, levelCount = 1,
       baseArrayLayer = 0, layerCount = 1 \<rparr>"
proof -
  let ?i = "imageBarrier_init img aspects old_layout new_layout"
  let ?a = "switch_oldLayout old_layout ?i"
  have f: "imageBarrier_final img aspects old_layout new_layout =
      ?i\<lparr>srcAccessMask := srcAccessMask (switch_newLayout new_layout ?a),
         dstAccessMask := dstAccessMask (switch_newLayout new_layout ?a)\<rparr>"
    unfolding imageBarrier_final_def imageBarrier_after_old_def
    by (subst switch_newLayout_more, subst switch_oldLayout_more) simp
  show "sType (imageBarrier_final img aspects old_layout new_layout) =
     VK_STRUCTURE_TYPE_IMAGE_MEMORY_BARRIER"
    and "pNext (imageBarrier_final img aspects old_layout new_layout) = NULL"
    and "oldLayout (imageBarrier_final img aspects old_layout new_layout) = old_layout"
    and "newLayout (imageBarrier_final img aspects old_layout new_layout) = new_layout"
    and "image_h (imageBarrier_final img aspects old_layout new_layout) = img"
    and "srcQueueFamilyIndex (imageBarrier_final img aspects old_layout new_layout) = 0"
    and "dstQueueFamilyIndex (imageBarrier_final img aspects old_layout new_layout) = 0"
    and "subresourceRange (imageBarrier_final img aspects old_layout new_layout) =
     \<lparr> aspectMask = aspects, baseMipLevel = 0, levelCount = 1,
       baseArrayLayer = 0, layerCount = 1 \<rparr>"
    unfolding f
    by (simp_all add: imageBarrier_init_def zero_VkImageMemoryBarrier_def Let_def)
qed

text \<open>The barrier handed to the call, field by field.\<close>

lemma imageBarrier_final_value:
  "imageBarrier_final img aspects old_layout new_layout =
     (let src_old =
            (case old_layout of
               VK_IMAGE_LAYOUT_PREINITIALIZED \<Rightarrow>
                 VK_ACCESS_HOST_WRITE_BIT OR VK_ACCESS_TRANSFER_WRITE_BIT
             | VK_IMAGE_LAYOUT_COLOR_ATTACHMENT_OPTIMAL \<Rightarrow> VK_ACCESS_COLOR_ATTACHMENT_WRITE_BIT
             | VK_IMAGE_LAYOUT_DEPTH_STENCIL_ATTACHMENT_OPTIMAL \<Rightarrow>
                 VK_ACCESS_DEPTH_STENCIL_ATTACHMENT_WRITE_BIT
             | VK_IMAGE_LAYOUT_TRANSFER_SRC_OPTIMAL \<Rightarrow> VK_ACCESS_TRANSFER_READ_BIT
             | VK_IMAGE_LAYOUT_SHADER_READ_ONLY_OPTIMAL \<Rightarrow> VK_ACCESS_SHADER_READ_BIT
             | _ \<Rightarrow> 0)
      in \<lparr> sType = VK_STRUCTURE_TYPE_IMAGE_MEMORY_BARRIER, pNext = NULL,
           srcAccessMask =
             (case new_layout of
                VK_IMAGE_LAYOUT_TRANSFER_SRC_OPTIMAL \<Rightarrow> src_old OR VK_ACCESS_TRANSFER_READ_BIT
              | VK_IMAGE_LAYOUT_COLOR_ATTACHMENT_OPTIMAL \<Rightarrow> VK_ACCESS_TRANSFER_READ_BIT
              | VK_IMAGE_LAYOUT_SHADER_READ_ONLY_OPTIMAL \<Rightarrow>
                  VK_ACCESS_HOST_WRITE_BIT OR VK_ACCESS_TRANSFER_WRITE_BIT
              | _ \<Rightarrow> src_old),
           dstAccessMask =
             (case new_layout of
                VK_IMAGE_LAYOUT_TRANSFER_DST_OPTIMAL \<Rightarrow> VK_ACCESS_TRANSFER_WRITE_BIT
              | VK_IMAGE_LAYOUT_TRANSFER_SRC_OPTIMAL \<Rightarrow> VK_ACCESS_TRANSFER_READ_BIT
              | VK_IMAGE_LAYOUT_COLOR_ATTACHMENT_OPTIMAL \<Rightarrow> VK_ACCESS_COLOR_ATTACHMENT_WRITE_BIT
              | VK_IMAGE_LAYOUT_DEPTH_STENCIL_ATTACHMENT_OPTIMAL \<Rightarrow>
                  VK_ACCESS_DEPTH_STENCIL_ATTACHMENT_WRITE_BIT
              | VK_IMAGE_LAYOUT_SHADER_READ_ONLY_OPTIMAL \<Rightarrow> VK_ACCESS_SHADER_READ_BIT
              | _ \<Rightarrow> 0),
           oldLayout = old_layout, newLayout = new_layout,
           srcQueueFamilyIndex = 0, dstQueueFamilyIndex = 0, image_h = img,
           subresourceRange =
             \<lparr> aspectMask = aspects, baseMipLevel = 0, levelCount = 1,
               baseArrayLayer = 0, layerCount = 1 \<rparr> \<rparr>)"
proof -
  let ?i = "imageBarrier_init img aspects old_layout new_layout"
  have init: "?i =
      \<lparr> sType = VK_STRUCTURE_TYPE_IMAGE_MEMORY_BARRIER, pNext = NULL,
        srcAccessMask = 0, dstAccessMask = 0,
        oldLayout = old_layout, newLayout = new_layout,
        srcQueueFamilyIndex = 0, dstQueueFamilyIndex = 0, image_h = img,
        subresourceRange =
          \<lparr> aspectMask = aspects, baseMipLevel = 0, levelCount = 1,
            baseArrayLayer = 0, layerCount = 1 \<rparr> \<rparr>"
    by (simp add: imageBarrier_init_def zero_VkImageMemoryBarrier_def Let_def)
  show ?thesis
    unfolding imageBarrier_final_def imageBarrier_after_old_def init
    by (cases old_layout; cases new_layout) (simp_all add: Let_def)
qed

text \<open>What one call records, and where.\<close>

lemma setImageLayout_records:
  "setImageLayout rec cmdBuffer img aspects old_layout new_layout =
     rec(cmdBuffer := rec cmdBuffer @
       [\<lparr> srcStageMask = VK_PIPELINE_STAGE_TOP_OF_PIPE_BIT,
          dstStageMask = VK_PIPELINE_STAGE_TOP_OF_PIPE_BIT,
          dependencyFlags = 0,
          memoryBarrierCount = 0, pMemoryBarriers = None,
          bufferMemoryBarrierCount = 0, pBufferMemoryBarriers = None,
          imageMemoryBarrierCount = 1,
          pImageMemoryBarriers =
            Some [imageBarrier_final img aspects old_layout new_layout] \<rparr>])"
  by (simp add: setImageLayout_def vkCmdPipelineBarrier_def Let_def)

lemma write_array_first:
  "xs \<noteq> [] \<Longrightarrow> write_array xs (w # ws) ! 0 = w"
  by (cases xs) (simp_all add: write_array_def)

lemma word_one_le_iff: "1 \<le> w \<longleftrightarrow> w \<noteq> 0" for w :: "32 word"
  by (simp add: linorder_not_less [symmetric])

section \<open>The source access mask\<close>

text \<open>
  C2. After the switch on the old layout, the source access mask of the barrier is given by a
  fixed table: pre-initialized gives host-write and transfer-write, color-attachment-optimal
  gives color-attachment-write, depth-stencil-attachment-optimal gives
  depth-stencil-attachment-write, transfer-source-optimal gives transfer-read,
  shader-read-only-optimal gives shader-read, and each of the other layouts (undefined
  among them) leaves the mask zero. The new layout, the image and the aspects play no part.
  For old layout pre-initialized and new layout transfer-destination-optimal the barrier
  passed to the call has source mask host-write with transfer-write and destination mask
  transfer-write.
\<close>

theorem srcAccessMask_of_oldLayout:
  "srcAccessMask (imageBarrier_after_old img aspects old_layout new_layout) =
     (case old_layout of
        VK_IMAGE_LAYOUT_PREINITIALIZED \<Rightarrow>
          VK_ACCESS_HOST_WRITE_BIT OR VK_ACCESS_TRANSFER_WRITE_BIT
      | VK_IMAGE_LAYOUT_COLOR_ATTACHMENT_OPTIMAL \<Rightarrow> VK_ACCESS_COLOR_ATTACHMENT_WRITE_BIT
      | VK_IMAGE_LAYOUT_DEPTH_STENCIL_ATTACHMENT_OPTIMAL \<Rightarrow>
          VK_ACCESS_DEPTH_STENCIL_ATTACHMENT_WRITE_BIT
      | VK_IMAGE_LAYOUT_TRANSFER_SRC_OPTIMAL \<Rightarrow> VK_ACCESS_TRANSFER_READ_BIT
      | VK_IMAGE_LAYOUT_SHADER_READ_ONLY_OPTIMAL \<Rightarrow> VK_ACCESS_SHADER_READ_BIT
      | _ \<Rightarrow> 0)
   \<and> srcAccessMask (imageBarrier_after_old img aspects VK_IMAGE_LAYOUT_UNDEFINED new_layout) = 0
   \<and> srcAccessMask (imageBarrier_final img aspects
         VK_IMAGE_LAYOUT_PREINITIALIZED VK_IMAGE_LAYOUT_TRANSFER_DST_OPTIMAL) =
       VK_ACCESS_HOST_WRITE_BIT OR VK_ACCESS_TRANSFER_WRITE_BIT
   \<and> dstAccessMask (imageBarrier_final img aspects
         VK_IMAGE_LAYOUT_PREINITIALIZED VK_IMAGE_LAYOUT_TRANSFER_DST_OPTIMAL) =
       VK_ACCESS_TRANSFER_WRITE_BIT"
proof -
  have table: "srcAccessMask (imageBarrier_after_old img aspects old_layout new_layout) =
     (case old_layout of
        VK_IMAGE_LAYOUT_PREINITIALIZED \<Rightarrow>
          VK_ACCESS_HOST_WRITE_BIT OR VK_ACCESS_TRANSFER_WRITE_BIT
      | VK_IMAGE_LAYOUT_COLOR_ATTACHMENT_OPTIMAL \<Rightarrow> VK_ACCESS_COLOR_ATTACHMENT_WRITE_BIT
      | VK_IMAGE_LAYOUT_DEPTH_STENCIL_ATTACHMENT_OPTIMAL \<Rightarrow>
          VK_ACCESS_DEPTH_STENCIL_ATTACHMENT_WRITE_BIT
      | VK_IMAGE_LAYOUT_TRANSFER_SRC_OPTIMAL \<Rightarrow> VK_ACCESS_TRANSFER_READ_BIT
      | VK_IMAGE_LAYOUT_SHADER_READ_ONLY_OPTIMAL \<Rightarrow> VK_ACCESS_SHADER_READ_BIT
      | _ \<Rightarrow> 0)"
    by (cases old_layout) (simp_all add: imageBarrier_after_old_def imageBarrier_init_masks)
  have scenario: "imageBarrier_final img aspects
         VK_IMAGE_LAYOUT_PREINITIALIZED VK_IMAGE_LAYOUT_TRANSFER_DST_OPTIMAL =
       (imageBarrier_init img aspects
          VK_IMAGE_LAYOUT_PREINITIALIZED VK_IMAGE_LAYOUT_TRANSFER_DST_OPTIMAL)
        \<lparr>srcAccessMask := VK_ACCESS_HOST_WRITE_BIT OR VK_ACCESS_TRANSFER_WRITE_BIT,
         dstAccessMask := VK_ACCESS_TRANSFER_WRITE_BIT\<rparr>"
    by (simp add: imageBarrier_final_def imageBarrier_after_old_def)
  show ?thesis
    unfolding scenario using table
    by (simp add: imageBarrier_after_old_def imageBarrier_init_masks)
qed

section \<open>The masks after the switch on the new layout\<close>

text \<open>
  C1. With the source access mask derived from the old layout, the switch on the new layout
  gives, for every pair of layouts: transfer-destination-optimal sets the destination mask to
  transfer-write; transfer-source-optimal merges transfer-read into the source mask and sets
  the destination mask to transfer-read; color-attachment-optimal sets the destination mask
  to color-attachment-write and overwrites the source mask with transfer-read;
  depth-stencil-attachment-optimal merges depth-stencil-attachment-write into the
  destination mask; shader-read-only-optimal overwrites the source mask with host-write and
  transfer-write and sets the destination mask to shader-read; each of the other new layouts
  leaves both masks as they were. From transfer-source-optimal to color-attachment-optimal
  the masks are transfer-read and color-attachment-write. The two overwrites are not merges:
  from depth-stencil-attachment-optimal to color-attachment-optimal, and from
  color-attachment-optimal to shader-read-only-optimal, the source mask differs from the
  merged one.
\<close>

theorem accessMasks_of_newLayout:
  "(let b = imageBarrier_after_old img aspects old_layout new_layout;
        b' = imageBarrier_final img aspects old_layout new_layout
    in (srcAccessMask b', dstAccessMask b') =
       (case new_layout of
          VK_IMAGE_LAYOUT_TRANSFER_DST_OPTIMAL \<Rightarrow>
            (srcAccessMask b, VK_ACCESS_TRANSFER_WRITE_BIT)
        | VK_IMAGE_LAYOUT_TRANSFER_SRC_OPTIMAL \<Rightarrow>
            (srcAccessMask b OR VK_ACCESS_TRANSFER_READ_BIT, VK_ACCESS_TRANSFER_READ_BIT)
        | VK_IMAGE_LAYOUT_COLOR_ATTACHMENT_OPTIMAL \<Rightarrow>
            (VK_ACCESS_TRANSFER_READ_BIT, VK_ACCESS_COLOR_ATTACHMENT_WRITE_BIT)
        | VK_IMAGE_LAYOUT_DEPTH_STENCIL_ATTACHMENT_OPTIMAL \<Rightarrow>
            (srcAccessMask b, dstAccessMask b OR VK_ACCESS_DEPTH_STENCIL_ATTACHMENT_WRITE_BIT)
        | VK_IMAGE_LAYOUT_SHADER_READ_ONLY_OPTIMAL \<Rightarrow>
            (VK_ACCESS_HOST_WRITE_BIT OR VK_ACCESS_TRANSFER_WRITE_BIT, VK_ACCESS_SHADER_READ_BIT)
        | _ \<Rightarrow> (srcAccessMask b, dstAccessMask b)))
   \<and> srcAccessMask (imageBarrier_final img aspects
         VK_IMAGE_LAYOUT_TRANSFER_SRC_OPTIMAL VK_IMAGE_LAYOUT_COLOR_ATTACHMENT_OPTIMAL) =
       VK_ACCESS_TRANSFER_READ_BIT
   \<and> dstAccessMask (imageBarrier_final img aspects
         VK_IMAGE_LAYOUT_TRANSFER_SRC_OPTIMAL VK_IMAGE_LAYOUT_COLOR_ATTACHMENT_OPTIMAL) =
       VK_ACCESS_COLOR_ATTACHMENT_WRITE_BIT
   \<and> srcAccessMask (imageBarrier_final img aspects
         VK_IMAGE_LAYOUT_DEPTH_STENCIL_ATTACHMENT_OPTIMAL
         VK_IMAGE_LAYOUT_COLOR_ATTACHMENT_OPTIMAL) \<noteq>
       srcAccessMask (imageBarrier_after_old img aspects
         VK_IMAGE_LAYOUT_DEPTH_STENCIL_ATTACHMENT_OPTIMAL
         VK_IMAGE_LAYOUT_COLOR_ATTACHMENT_OPTIMAL) OR VK_ACCESS_TRANSFER_READ_BIT
   \<and> srcAccessMask (imageBarrier_final img aspects
         VK_IMAGE_LAYOUT_COLOR_ATTACHMENT_OPTIMAL
         VK_IMAGE_LAYOUT_SHADER_READ_ONLY_OPTIMAL) \<noteq>
       srcAccessMask (imageBarrier_after_old img aspects
         VK_IMAGE_LAYOUT_COLOR_ATTACHMENT_OPTIMAL
         VK_IMAGE_LAYOUT_SHADER_READ_ONLY_OPTIMAL) OR
         (VK_ACCESS_HOST_WRITE_BIT OR VK_ACCESS_TRANSFER_WRITE_BIT)"
proof -
  have table: "(let b = imageBarrier_after_old img aspects old_layout new_layout;
        b' = imageBarrier_final img aspects old_layout new_layout
    in (srcAccessMask b', dstAccessMask b') =
       (case new_layout of
          VK_IMAGE_LAYOUT_TRANSFER_DST_OPTIMAL \<Rightarrow>
            (srcAccessMask b, VK_ACCESS_TRANSFER_WRITE_BIT)
        | VK_IMAGE_LAYOUT_TRANSFER_SRC_OPTIMAL \<Rightarrow>
            (srcAccessMask b OR VK_ACCESS_TRANSFER_READ_BIT, VK_ACCESS_TRANSFER_READ_BIT)
        | VK_IMAGE_LAYOUT_COLOR_ATTACHMENT_OPTIMAL \<Rightarrow>
            (VK_ACCESS_TRANSFER_READ_BIT, VK_ACCESS_COLOR_ATTACHMENT_WRITE_BIT)
        | VK_IMAGE_LAYOUT_DEPTH_STENCIL_ATTACHMENT_OPTIMAL \<Rightarrow>
            (srcAccessMask b, dstAccessMask b OR VK_ACCESS_DEPTH_STENCIL_ATTACHMENT_WRITE_BIT)
        | VK_IMAGE_LAYOUT_SHADER_READ_ONLY_OPTIMAL \<Rightarrow>
            (VK_ACCESS_HOST_WRITE_BIT OR VK_ACCESS_TRANSFER_WRITE_BIT, VK_ACCESS_SHADER_READ_BIT)
        | _ \<Rightarrow> (srcAccessMask b, dstAccessMask b)))"
    by (cases new_layout) (simp_all add: imageBarrier_final_def Let_def)
  have scenario3:
    "srcAccessMask (imageBarrier_final img aspects
         VK_IMAGE_LAYOUT_TRANSFER_SRC_OPTIMAL VK_IMAGE_LAYOUT_COLOR_ATTACHMENT_OPTIMAL) =
       VK_ACCESS_TRANSFER_READ_BIT"
    "dstAccessMask (imageBarrier_final img aspects
         VK_IMAGE_LAYOUT_TRANSFER_SRC_OPTIMAL VK_IMAGE_LAYOUT_COLOR_ATTACHMENT_OPTIMAL) =
       VK_ACCESS_COLOR_ATTACHMENT_WRITE_BIT"
    by (simp_all add: imageBarrier_final_def Let_def)
  have overwrite_color:
    "srcAccessMask (imageBarrier_final img aspects
         VK_IMAGE_LAYOUT_DEPTH_STENCIL_ATTACHMENT_OPTIMAL
         VK_IMAGE_LAYOUT_COLOR_ATTACHMENT_OPTIMAL) \<noteq>
       srcAccessMask (imageBarrier_after_old img aspects
         VK_IMAGE_LAYOUT_DEPTH_STENCIL_ATTACHMENT_OPTIMAL
         VK_IMAGE_LAYOUT_COLOR_ATTACHMENT_OPTIMAL) OR VK_ACCESS_TRANSFER_READ_BIT"
    by (simp add: imageBarrier_final_def imageBarrier_after_old_def Let_def vk_access_defs)
  have overwrite_shader:
    "srcAccessMask (imageBarrier_final img aspects
         VK_IMAGE_LAYOUT_COLOR_ATTACHMENT_OPTIMAL
         VK_IMAGE_LAYOUT_SHADER_READ_ONLY_OPTIMAL) \<noteq>
       srcAccessMask (imageBarrier_after_old img aspects
         VK_IMAGE_LAYOUT_COLOR_ATTACHMENT_OPTIMAL
         VK_IMAGE_LAYOUT_SHADER_READ_ONLY_OPTIMAL) OR
         (VK_ACCESS_HOST_WRITE_BIT OR VK_ACCESS_TRANSFER_WRITE_BIT)"
    by (simp add: imageBarrier_final_def imageBarrier_after_old_def Let_def vk_access_defs)
  from table scenario3 overwrite_color overwrite_shader show ?thesis
    by (intro conjI)
qed

section \<open>No rejection\<close>

text \<open>
  C3. \<^verbatim>\<open>setImageLayout\<close> has no error path: for every input it appends exactly one
  pipeline-barrier command with exactly one image memory barrier to the command buffer. When
  the new layout is none of the five cases of the second switch (undefined and
  pre-initialized among them), the destination access mask of that barrier is zero.
\<close>

theorem setImageLayout_never_rejects:
  "\<exists>c b. setImageLayout rec cmdBuffer img aspects old_layout new_layout =
             rec(cmdBuffer := rec cmdBuffer @ [c])
           \<and> imageMemoryBarrierCount c = 1
           \<and> pImageMemoryBarriers c = Some [b]
           \<and> newLayout b = new_layout
           \<and> (new_layout \<notin> {VK_IMAGE_LAYOUT_TRANSFER_DST_OPTIMAL,
                 VK_IMAGE_LAYOUT_TRANSFER_SRC_OPTIMAL,
                 VK_IMAGE_LAYOUT_COLOR_ATTACHMENT_OPTIMAL,
                 VK_IMAGE_LAYOUT_DEPTH_STENCIL_ATTACHMENT_OPTIMAL,
                 VK_IMAGE_LAYOUT_SHADER_READ_ONLY_OPTIMAL}
               \<longrightarrow> dstAccessMask b = 0)"
proof -
  let ?b = "imageBarrier_final img aspects old_layout new_layout"
  let ?a = "imageBarrier_after_old img aspects old_layout new_layout"
  have unhandled: "dstAccessMask ?b = 0"
    if "new_layout \<notin> {VK_IMAGE_LAYOUT_TRANSFER_DST_OPTIMAL,
          VK_IMAGE_LAYOUT_TRANSFER_SRC_OPTIMAL, VK_IMAGE_LAYOUT_COLOR_ATTACHMENT_OPTIMAL,
          VK_IMAGE_LAYOUT_DEPTH_STENCIL_ATTACHMENT_OPTIMAL,
          VK_IMAGE_LAYOUT_SHADER_READ_ONLY_OPTIMAL}"
  proof -
    from that have "switch_newLayout new_layout ?a = ?a"
      by (cases new_layout) simp_all
    then show ?thesis
      by (simp add: imageBarrier_final_def imageBarrier_after_old_dst)
  qed
  have "newLayout ?b = new_layout"
    by (rule imageBarrier_final_fields)
  with unhandled show ?thesis
    using setImageLayout_records [of rec cmdBuffer img aspects old_layout new_layout]
    by (intro exI [of _ ?b] exI [of _ "\<lparr> srcStageMask = VK_PIPELINE_STAGE_TOP_OF_PIPE_BIT,
          dstStageMask = VK_PIPELINE_STAGE_TOP_OF_PIPE_BIT,
          dependencyFlags = 0,
          memoryBarrierCount = 0, pMemoryBarriers = None,
          bufferMemoryBarrierCount = 0, pBufferMemoryBarriers = None,
          imageMemoryBarrierCount = 1,
          pImageMemoryBarriers = Some [?b] \<rparr>"]) simp
qed

text \<open>
  The two forbidden new layouts, from color-attachment-optimal, into an empty command buffer.
\<close>

theorem setImageLayout_never_rejects_witness:
  "(\<exists>c b. setImageLayout empty_recording 1 2 1
             VK_IMAGE_LAYOUT_COLOR_ATTACHMENT_OPTIMAL VK_IMAGE_LAYOUT_PREINITIALIZED =
             empty_recording(1 := empty_recording 1 @ [c])
           \<and> imageMemoryBarrierCount c = 1
           \<and> pImageMemoryBarriers c = Some [b]
           \<and> newLayout b = VK_IMAGE_LAYOUT_PREINITIALIZED
           \<and> dstAccessMask b = 0)
   \<and> (\<exists>c b. setImageLayout empty_recording 1 2 1
             VK_IMAGE_LAYOUT_COLOR_ATTACHMENT_OPTIMAL VK_IMAGE_LAYOUT_UNDEFINED =
             empty_recording(1 := empty_recording 1 @ [c])
           \<and> imageMemoryBarrierCount c = 1
           \<and> pImageMemoryBarriers c = Some [b]
           \<and> newLayout b = VK_IMAGE_LAYOUT_UNDEFINED
           \<and> dstAccessMask b = 0)"
  using setImageLayout_never_rejects
    [of empty_recording 1 2 1 VK_IMAGE_LAYOUT_COLOR_ATTACHMENT_OPTIMAL
        VK_IMAGE_LAYOUT_PREINITIALIZED]
    setImageLayout_never_rejects
    [of empty_recording 1 2 1 VK_IMAGE_LAYOUT_COLOR_ATTACHMENT_OPTIMAL
        VK_IMAGE_LAYOUT_UNDEFINED]
  by simp

section \<open>Queue family indices\<close>

text \<open>
  C4, as the code has it. The code never assigns \<^verbatim>\<open>srcQueueFamilyIndex\<close> or
  \<^verbatim>\<open>dstQueueFamilyIndex\<close>: in every recorded barrier both keep the zero of the initialisation.
  They are equal to each other, and neither is \<^verbatim>\<open>VK_QUEUE_FAMILY_IGNORED\<close>.
\<close>

theorem queueFamilyIndex_zero:
  "\<exists>c b. setImageLayout rec cmdBuffer img aspects old_layout new_layout =
             rec(cmdBuffer := rec cmdBuffer @ [c])
           \<and> pImageMemoryBarriers c = Some [b]
           \<and> srcQueueFamilyIndex b = 0 \<and> dstQueueFamilyIndex b = 0
           \<and> srcQueueFamilyIndex b = dstQueueFamilyIndex b
           \<and> srcQueueFamilyIndex b \<noteq> VK_QUEUE_FAMILY_IGNORED
           \<and> dstQueueFamilyIndex b \<noteq> VK_QUEUE_FAMILY_IGNORED"
  using setImageLayout_records [of rec cmdBuffer img aspects old_layout new_layout]
  by (intro exI [of _ "imageBarrier_final img aspects old_layout new_layout"]
        exI [of _ "\<lparr> srcStageMask = VK_PIPELINE_STAGE_TOP_OF_PIPE_BIT,
          dstStageMask = VK_PIPELINE_STAGE_TOP_OF_PIPE_BIT,
          dependencyFlags = 0,
          memoryBarrierCount = 0, pMemoryBarriers = None,
          bufferMemoryBarrierCount = 0, pBufferMemoryBarriers = None,
          imageMemoryBarrierCount = 1,
          pImageMemoryBarriers =
            Some [imageBarrier_final img aspects old_layout new_layout] \<rparr>"])
     (simp add: imageBarrier_final_fields VK_QUEUE_FAMILY_IGNORED_def)

text \<open>
  One call into an empty command buffer, from undefined to transfer-destination-optimal:
  the command it records, in full. Both queue family indices are 0, and
  \<^verbatim>\<open>VK_QUEUE_FAMILY_IGNORED\<close> is \<^verbatim>\<open>0xFFFFFFFF\<close>.
\<close>

theorem queueFamilyIndex_IGNORED_counterexample:
  "setImageLayout empty_recording 1 2 1
       VK_IMAGE_LAYOUT_UNDEFINED VK_IMAGE_LAYOUT_TRANSFER_DST_OPTIMAL 1 =
     [\<lparr> srcStageMask = VK_PIPELINE_STAGE_TOP_OF_PIPE_BIT,
        dstStageMask = VK_PIPELINE_STAGE_TOP_OF_PIPE_BIT,
        dependencyFlags = 0,
        memoryBarrierCount = 0, pMemoryBarriers = None,
        bufferMemoryBarrierCount = 0, pBufferMemoryBarriers = None,
        imageMemoryBarrierCount = 1,
        pImageMemoryBarriers = Some
          [\<lparr> sType = VK_STRUCTURE_TYPE_IMAGE_MEMORY_BARRIER, pNext = NULL,
              srcAccessMask = 0, dstAccessMask = VK_ACCESS_TRANSFER_WRITE_BIT,
              oldLayout = VK_IMAGE_LAYOUT_UNDEFINED,
              newLayout = VK_IMAGE_LAYOUT_TRANSFER_DST_OPTIMAL,
              srcQueueFamilyIndex = 0, dstQueueFamilyIndex = 0, image_h = 2,
              subresourceRange =
                \<lparr> aspectMask = 1, baseMipLevel = 0, levelCount = 1,
                  baseArrayLayer = 0, layerCount = 1 \<rparr> \<rparr>] \<rparr>]
   \<and> VK_QUEUE_FAMILY_IGNORED = 0xFFFFFFFF
   \<and> (0 :: 32 word) \<noteq> VK_QUEUE_FAMILY_IGNORED"
  by (simp add: setImageLayout_def vkCmdPipelineBarrier_def empty_recording_def
      imageBarrier_final_def imageBarrier_after_old_def imageBarrier_init_def
      zero_VkImageMemoryBarrier_def NULL_def VK_QUEUE_FAMILY_IGNORED_def Let_def)

section \<open>The subresource range\<close>

text \<open>
  C5. In every recorded barrier the subresource range has the aspect mask given to the call,
  base mip level 0, level count 1 and layer count 1 (and base array layer 0), whatever the
  image, the layouts and the state of the command buffers are.
\<close>

theorem subresourceRange_fixed:
  "\<exists>c b. setImageLayout rec cmdBuffer img aspects old_layout new_layout =
             rec(cmdBuffer := rec cmdBuffer @ [c])
           \<and> pImageMemoryBarriers c = Some [b]
           \<and> aspectMask (subresourceRange b) = aspects
           \<and> baseMipLevel (subresourceRange b) = 0
           \<and> levelCount (subresourceRange b) = 1
           \<and> baseArrayLayer (subresourceRange b) = 0
           \<and> layerCount (subresourceRange b) = 1"
  using setImageLayout_records [of rec cmdBuffer img aspects old_layout new_layout]
  by (intro exI [of _ "imageBarrier_final img aspects old_layout new_layout"]
        exI [of _ "\<lparr> srcStageMask = VK_PIPELINE_STAGE_TOP_OF_PIPE_BIT,
          dstStageMask = VK_PIPELINE_STAGE_TOP_OF_PIPE_BIT,
          dependencyFlags = 0,
          memoryBarrierCount = 0, pMemoryBarriers = None,
          bufferMemoryBarrierCount = 0, pBufferMemoryBarriers = None,
          imageMemoryBarrierCount = 1,
          pImageMemoryBarriers =
            Some [imageBarrier_final img aspects old_layout new_layout] \<rparr>"])
     (simp add: imageBarrier_final_fields)

section \<open>The recorded command\<close>

text \<open>
  C6. Every call appends exactly one pipeline-barrier command to the command buffer it is
  given, with top-of-pipe as source and as destination stage mask, dependency flags zero (so
  without the by-region bit), no memory barrier, no buffer memory barrier and exactly one
  image memory barrier.
\<close>

theorem pipeline_barrier_shape:
  "\<exists>c b. setImageLayout rec cmdBuffer img aspects old_layout new_layout =
             rec(cmdBuffer := rec cmdBuffer @ [c])
           \<and> srcStageMask c = VK_PIPELINE_STAGE_TOP_OF_PIPE_BIT
           \<and> dstStageMask c = VK_PIPELINE_STAGE_TOP_OF_PIPE_BIT
           \<and> dependencyFlags c = 0
           \<and> dependencyFlags c AND VK_DEPENDENCY_BY_REGION_BIT = 0
           \<and> memoryBarrierCount c = 0 \<and> pMemoryBarriers c = None
           \<and> bufferMemoryBarrierCount c = 0 \<and> pBufferMemoryBarriers c = None
           \<and> imageMemoryBarrierCount c = 1 \<and> pImageMemoryBarriers c = Some [b]"
  using setImageLayout_records [of rec cmdBuffer img aspects old_layout new_layout]
  by (intro exI [of _ "imageBarrier_final img aspects old_layout new_layout"]
        exI [of _ "\<lparr> srcStageMask = VK_PIPELINE_STAGE_TOP_OF_PIPE_BIT,
          dstStageMask = VK_PIPELINE_STAGE_TOP_OF_PIPE_BIT,
          dependencyFlags = 0,
          memoryBarrierCount = 0, pMemoryBarriers = None,
          bufferMemoryBarrierCount = 0, pBufferMemoryBarriers = None,
          imageMemoryBarrierCount = 1,
          pImageMemoryBarriers =
            Some [imageBarrier_final img aspects old_layout new_layout] \<rparr>"])
     (simp add: VK_DEPENDENCY_BY_REGION_BIT_def)

section \<open>Determinism\<close>

text \<open>
  C7. The command a call records is fixed by the arguments of the call, field by field: the
  stage masks, flags, counts and array arguments are constants, and in the one image memory
  barrier the layouts, the image and the aspect mask are the arguments, the two access masks
  are functions of the two layouts, and every field that no statement assigns (both queue
  family indices, the base array layer, an access mask that no case sets) is the zero of the
  initialisation \<^verbatim>\<open>= {}\<close>. Hence from any two states of the command buffers two calls
  with the same arguments append the same command, identical in every field, and a call
  repeated with the same arguments appends a second copy of the command the first appended.
\<close>

theorem setImageLayout_deterministic:
  "(let src_old =
          (case old_layout of
             VK_IMAGE_LAYOUT_PREINITIALIZED \<Rightarrow>
               VK_ACCESS_HOST_WRITE_BIT OR VK_ACCESS_TRANSFER_WRITE_BIT
           | VK_IMAGE_LAYOUT_COLOR_ATTACHMENT_OPTIMAL \<Rightarrow> VK_ACCESS_COLOR_ATTACHMENT_WRITE_BIT
           | VK_IMAGE_LAYOUT_DEPTH_STENCIL_ATTACHMENT_OPTIMAL \<Rightarrow>
               VK_ACCESS_DEPTH_STENCIL_ATTACHMENT_WRITE_BIT
           | VK_IMAGE_LAYOUT_TRANSFER_SRC_OPTIMAL \<Rightarrow> VK_ACCESS_TRANSFER_READ_BIT
           | VK_IMAGE_LAYOUT_SHADER_READ_ONLY_OPTIMAL \<Rightarrow> VK_ACCESS_SHADER_READ_BIT
           | _ \<Rightarrow> 0);
        b = \<lparr> sType = VK_STRUCTURE_TYPE_IMAGE_MEMORY_BARRIER, pNext = NULL,
              srcAccessMask =
                (case new_layout of
                   VK_IMAGE_LAYOUT_TRANSFER_SRC_OPTIMAL \<Rightarrow>
                     src_old OR VK_ACCESS_TRANSFER_READ_BIT
                 | VK_IMAGE_LAYOUT_COLOR_ATTACHMENT_OPTIMAL \<Rightarrow> VK_ACCESS_TRANSFER_READ_BIT
                 | VK_IMAGE_LAYOUT_SHADER_READ_ONLY_OPTIMAL \<Rightarrow>
                     VK_ACCESS_HOST_WRITE_BIT OR VK_ACCESS_TRANSFER_WRITE_BIT
                 | _ \<Rightarrow> src_old),
              dstAccessMask =
                (case new_layout of
                   VK_IMAGE_LAYOUT_TRANSFER_DST_OPTIMAL \<Rightarrow> VK_ACCESS_TRANSFER_WRITE_BIT
                 | VK_IMAGE_LAYOUT_TRANSFER_SRC_OPTIMAL \<Rightarrow> VK_ACCESS_TRANSFER_READ_BIT
                 | VK_IMAGE_LAYOUT_COLOR_ATTACHMENT_OPTIMAL \<Rightarrow>
                     VK_ACCESS_COLOR_ATTACHMENT_WRITE_BIT
                 | VK_IMAGE_LAYOUT_DEPTH_STENCIL_ATTACHMENT_OPTIMAL \<Rightarrow>
                     VK_ACCESS_DEPTH_STENCIL_ATTACHMENT_WRITE_BIT
                 | VK_IMAGE_LAYOUT_SHADER_READ_ONLY_OPTIMAL \<Rightarrow> VK_ACCESS_SHADER_READ_BIT
                 | _ \<Rightarrow> 0),
              oldLayout = old_layout, newLayout = new_layout,
              srcQueueFamilyIndex = 0, dstQueueFamilyIndex = 0, image_h = img,
              subresourceRange =
                \<lparr> aspectMask = aspects, baseMipLevel = 0, levelCount = 1,
                  baseArrayLayer = 0, layerCount = 1 \<rparr> \<rparr>;
        c = \<lparr> srcStageMask = VK_PIPELINE_STAGE_TOP_OF_PIPE_BIT,
              dstStageMask = VK_PIPELINE_STAGE_TOP_OF_PIPE_BIT,
              dependencyFlags = 0,
              memoryBarrierCount = 0, pMemoryBarriers = None,
              bufferMemoryBarrierCount = 0, pBufferMemoryBarriers = None,
              imageMemoryBarrierCount = 1, pImageMemoryBarriers = Some [b] \<rparr>
    in setImageLayout rec1 cmdBuffer img aspects old_layout new_layout =
         rec1(cmdBuffer := rec1 cmdBuffer @ [c])
     \<and> setImageLayout rec2 cmdBuffer img aspects old_layout new_layout =
         rec2(cmdBuffer := rec2 cmdBuffer @ [c])
     \<and> setImageLayout (setImageLayout rec1 cmdBuffer img aspects old_layout new_layout)
            cmdBuffer img aspects old_layout new_layout =
         rec1(cmdBuffer := rec1 cmdBuffer @ [c, c]))
   \<and> drop (length (rec1 cmdBuffer))
      (setImageLayout rec1 cmdBuffer img aspects old_layout new_layout cmdBuffer) =
     drop (length (rec2 cmdBuffer))
      (setImageLayout rec2 cmdBuffer img aspects old_layout new_layout cmdBuffer)
   \<and> (\<exists>c. setImageLayout (setImageLayout rec1 cmdBuffer img aspects old_layout new_layout)
            cmdBuffer img aspects old_layout new_layout =
          rec1(cmdBuffer := rec1 cmdBuffer @ [c, c]))"
proof -
  let ?c = "\<lparr> srcStageMask = VK_PIPELINE_STAGE_TOP_OF_PIPE_BIT,
          dstStageMask = VK_PIPELINE_STAGE_TOP_OF_PIPE_BIT,
          dependencyFlags = 0,
          memoryBarrierCount = 0, pMemoryBarriers = None,
          bufferMemoryBarrierCount = 0, pBufferMemoryBarriers = None,
          imageMemoryBarrierCount = 1,
          pImageMemoryBarriers =
            Some [imageBarrier_final img aspects old_layout new_layout] \<rparr>"
  have "setImageLayout (setImageLayout rec1 cmdBuffer img aspects old_layout new_layout)
            cmdBuffer img aspects old_layout new_layout =
          rec1(cmdBuffer := rec1 cmdBuffer @ [?c, ?c])"
    by (simp add: setImageLayout_records)
  then have twice: "\<exists>c. setImageLayout
            (setImageLayout rec1 cmdBuffer img aspects old_layout new_layout)
            cmdBuffer img aspects old_layout new_layout =
          rec1(cmdBuffer := rec1 cmdBuffer @ [c, c])"
    by (rule exI)
  have same: "drop (length (rec1 cmdBuffer))
      (setImageLayout rec1 cmdBuffer img aspects old_layout new_layout cmdBuffer) =
   drop (length (rec2 cmdBuffer))
      (setImageLayout rec2 cmdBuffer img aspects old_layout new_layout cmdBuffer)"
    by (simp add: setImageLayout_records)
  show ?thesis
  proof (intro conjI)
    show "\<exists>c. setImageLayout
            (setImageLayout rec1 cmdBuffer img aspects old_layout new_layout)
            cmdBuffer img aspects old_layout new_layout =
          rec1(cmdBuffer := rec1 cmdBuffer @ [c, c])"
      by (rule twice)
  next
    show "drop (length (rec1 cmdBuffer))
      (setImageLayout rec1 cmdBuffer img aspects old_layout new_layout cmdBuffer) =
     drop (length (rec2 cmdBuffer))
      (setImageLayout rec2 cmdBuffer img aspects old_layout new_layout cmdBuffer)"
      by (rule same)
  qed (use imageBarrier_final_value [of img aspects old_layout new_layout]
       in \<open>simp add: setImageLayout_records Let_def\<close>)
qed

section \<open>Merge and assignment\<close>

text \<open>
  C8. When the second switch runs, the destination access mask is still zero, for every pair
  of layouts. So the variant that assigns in the depth-stencil case instead of merging
  records the same command as the code for all inputs. For the source mask the distinction
  shows: the variant that assigns in the transfer-source case records a different command
  from color-attachment-optimal to transfer-source-optimal.
\<close>

theorem dst_merge_is_assignment:
  "dstAccessMask (imageBarrier_after_old img aspects old_layout new_layout) = 0
   \<and> setImageLayout_assign_dst rec cmdBuffer img aspects old_layout new_layout =
       setImageLayout rec cmdBuffer img aspects old_layout new_layout
   \<and> setImageLayout_assign_src rec cmdBuffer img aspects
         VK_IMAGE_LAYOUT_COLOR_ATTACHMENT_OPTIMAL VK_IMAGE_LAYOUT_TRANSFER_SRC_OPTIMAL \<noteq>
       setImageLayout rec cmdBuffer img aspects
         VK_IMAGE_LAYOUT_COLOR_ATTACHMENT_OPTIMAL VK_IMAGE_LAYOUT_TRANSFER_SRC_OPTIMAL"
proof -
  let ?a = "imageBarrier_after_old img aspects old_layout new_layout"
  have zero: "dstAccessMask ?a = 0"
    by (rule imageBarrier_after_old_dst)
  have "switch_newLayout_assign_dst new_layout ?a = switch_newLayout new_layout ?a"
    using zero by (cases new_layout) simp_all
  then have same: "setImageLayout_assign_dst rec cmdBuffer img aspects old_layout new_layout =
       setImageLayout rec cmdBuffer img aspects old_layout new_layout"
    by (simp add: setImageLayout_assign_dst_def setImageLayout_def imageBarrier_final_def)
  let ?o = "VK_IMAGE_LAYOUT_COLOR_ATTACHMENT_OPTIMAL"
  let ?n = "VK_IMAGE_LAYOUT_TRANSFER_SRC_OPTIMAL"
  have "srcAccessMask (switch_newLayout_assign_src ?n (imageBarrier_after_old img aspects ?o ?n))
      \<noteq> srcAccessMask (imageBarrier_final img aspects ?o ?n)"
    by (simp add: imageBarrier_final_def imageBarrier_after_old_def Let_def vk_access_defs)
  then have "switch_newLayout_assign_src ?n (imageBarrier_after_old img aspects ?o ?n)
      \<noteq> imageBarrier_final img aspects ?o ?n"
    by metis
  then have "setImageLayout_assign_src rec cmdBuffer img aspects ?o ?n cmdBuffer \<noteq>
       setImageLayout rec cmdBuffer img aspects ?o ?n cmdBuffer"
    by (simp add: setImageLayout_assign_src_def setImageLayout_records
        vkCmdPipelineBarrier_def Let_def)
  then have diff: "setImageLayout_assign_src rec cmdBuffer img aspects ?o ?n \<noteq>
       setImageLayout rec cmdBuffer img aspects ?o ?n"
    by metis
  from zero same diff show ?thesis by (intro conjI)
qed

section \<open>initSurface: the colour format\<close>

text \<open>
  C9, as the code has it. When the surface is created and both surface-format queries
  succeed with a count of at least one, \<^verbatim>\<open>initSurface\<close> returns, and in the state it
  returns the colour format is \<^verbatim>\<open>VK_FORMAT_B8G8R8A8_UNORM\<close> if the count is 1 and the
  format of the first element is \<^verbatim>\<open>VK_FORMAT_UNDEFINED\<close>, and the format of the first
  element otherwise; the colour space is the colour space of the first element. So the colour
  format is \<^verbatim>\<open>VK_FORMAT_B8G8R8A8_UNORM\<close> exactly in that case or when the first element
  has that format itself. The first element is the first format the query wrote, when it
  wrote one.
\<close>

theorem initSurface_colorFormat:
  assumes "createSurface_result env = VK_SUCCESS"
    and "formats_count_result env = VK_SUCCESS" and "\<not> formats_count env < 1"
    and "formats_fill_result env = VK_SUCCESS" and "\<not> formats_fill_count env < 1"
  shows "\<exists>s'. initSurface env s = Inr s'
     \<and> colorFormat s' =
         (if formats_fill_count env = 1 \<and>
             format (surfaceFormats_of env ! 0) = VK_FORMAT_UNDEFINED
          then VK_FORMAT_B8G8R8A8_UNORM
          else format (surfaceFormats_of env ! 0))
     \<and> (colorFormat s' = VK_FORMAT_B8G8R8A8_UNORM \<longleftrightarrow>
          formats_fill_count env = 1 \<and>
            format (surfaceFormats_of env ! 0) = VK_FORMAT_UNDEFINED
          \<or> format (surfaceFormats_of env ! 0) = VK_FORMAT_B8G8R8A8_UNORM)
     \<and> colorSpace_m s' = colorSpace (surfaceFormats_of env ! 0)
     \<and> (\<forall>f fs. formats_fill_written env = f # fs \<longrightarrow> surfaceFormats_of env ! 0 = f)"
proof -
  have "replicate (unat (formats_count env)) \<lparr>format = 0, colorSpace = 0\<rparr> \<noteq> []"
    using assms(3) by (simp add: unat_gt_0)
  then have first:
    "\<forall>f fs. formats_fill_written env = f # fs \<longrightarrow> surfaceFormats_of env ! 0 = f"
    by (simp add: surfaceFormats_of_def write_array_first)
  show ?thesis
    using assms first by (auto simp add: initSurface_def Let_def word_one_le_iff)
qed

text \<open>
  One format, undefined: \<^verbatim>\<open>VK_FORMAT_B8G8R8A8_UNORM\<close> is chosen. Two formats: the first.
\<close>

theorem initSurface_colorFormat_witness:
  "(\<exists>s'. initSurface
       \<lparr> createSurface_result = VK_SUCCESS, createSurface_surface = 7,
         formats_count_result = VK_SUCCESS, formats_count = 1,
         formats_fill_result = VK_SUCCESS, formats_fill_count = 1,
         formats_fill_written = [\<lparr>format = VK_FORMAT_UNDEFINED, colorSpace = 0\<rparr>] \<rparr>
       \<lparr>physicalDevice = 5, device = 6, surface = 0, colorFormat = 0, colorSpace_m = 0\<rparr> = Inr s'
     \<and> colorFormat s' = VK_FORMAT_B8G8R8A8_UNORM \<and> colorSpace_m s' = 0)
   \<and> (\<exists>s'. initSurface
       \<lparr> createSurface_result = VK_SUCCESS, createSurface_surface = 7,
         formats_count_result = VK_SUCCESS, formats_count = 2,
         formats_fill_result = VK_SUCCESS, formats_fill_count = 2,
         formats_fill_written = [\<lparr>format = VK_FORMAT_R8G8B8A8_UNORM, colorSpace = 0\<rparr>,
           \<lparr>format = VK_FORMAT_UNDEFINED, colorSpace = 3\<rparr>] \<rparr>
       \<lparr>physicalDevice = 5, device = 6, surface = 0, colorFormat = 0, colorSpace_m = 0\<rparr> = Inr s'
     \<and> colorFormat s' = VK_FORMAT_R8G8B8A8_UNORM \<and> colorSpace_m s' = 0)"
  using initSurface_colorFormat [of
       "\<lparr> createSurface_result = VK_SUCCESS, createSurface_surface = 7,
         formats_count_result = VK_SUCCESS, formats_count = 1,
         formats_fill_result = VK_SUCCESS, formats_fill_count = 1,
         formats_fill_written = [\<lparr>format = VK_FORMAT_UNDEFINED, colorSpace = 0\<rparr>] \<rparr>"
       "\<lparr>physicalDevice = 5, device = 6, surface = 0, colorFormat = 0, colorSpace_m = 0\<rparr>"]
     initSurface_colorFormat [of
       "\<lparr> createSurface_result = VK_SUCCESS, createSurface_surface = 7,
         formats_count_result = VK_SUCCESS, formats_count = 2,
         formats_fill_result = VK_SUCCESS, formats_fill_count = 2,
         formats_fill_written = [\<lparr>format = VK_FORMAT_R8G8B8A8_UNORM, colorSpace = 0\<rparr>,
           \<lparr>format = VK_FORMAT_UNDEFINED, colorSpace = 3\<rparr>] \<rparr>"
       "\<lparr>physicalDevice = 5, device = 6, surface = 0, colorFormat = 0, colorSpace_m = 0\<rparr>"]
  by (auto simp add: VK_FORMAT_UNDEFINED_def VK_FORMAT_R8G8B8A8_UNORM_def
      VK_FORMAT_B8G8R8A8_UNORM_def surfaceFormats_of_def write_array_def)

text \<open>
  Two formats reported, \<^verbatim>\<open>VK_FORMAT_B8G8R8A8_UNORM\<close> first: the colour format is
  \<^verbatim>\<open>VK_FORMAT_B8G8R8A8_UNORM\<close>, though the count is 2 and no format is undefined.
\<close>

theorem initSurface_colorFormat_counterexample:
  "initSurface
     \<lparr> createSurface_result = VK_SUCCESS, createSurface_surface = 7,
       formats_count_result = VK_SUCCESS, formats_count = 2,
       formats_fill_result = VK_SUCCESS, formats_fill_count = 2,
       formats_fill_written =
         [\<lparr>format = VK_FORMAT_B8G8R8A8_UNORM, colorSpace = 0\<rparr>,
          \<lparr>format = VK_FORMAT_R8G8B8A8_UNORM, colorSpace = 0\<rparr>] \<rparr>
     \<lparr>physicalDevice = 5, device = 6, surface = 0, colorFormat = 0, colorSpace_m = 0\<rparr> =
   Inr \<lparr>physicalDevice = 5, device = 6, surface = 7,
        colorFormat = VK_FORMAT_B8G8R8A8_UNORM, colorSpace_m = 0\<rparr>
   \<and> (2 :: 32 word) \<noteq> 1
   \<and> VK_FORMAT_B8G8R8A8_UNORM \<noteq> VK_FORMAT_UNDEFINED"
  by (simp add: initSurface_def Let_def surfaceFormats_of_def write_array_def
      VK_SUCCESS_def VK_FORMAT_UNDEFINED_def VK_FORMAT_B8G8R8A8_UNORM_def
      VK_FORMAT_R8G8B8A8_UNORM_def)

section \<open>initDevices: the device chosen and the exits\<close>

text \<open>
  C10, as the code has it. \<^verbatim>\<open>initDevices\<close> exits exactly when the first enumeration call
  does not return success, or reports fewer than one device, or the second enumeration call
  does not return success, or \<^verbatim>\<open>vkCreateDevice\<close> does not return success. When it returns,
  the physical device chosen is element 0 of the array of enumerated devices: the first
  handle the second call wrote, when it wrote one. No property of a device is read for it.
\<close>

theorem initDevices_selects_first:
  "((\<exists>e. initDevices env s = Inl e) \<longleftrightarrow>
      (enumerate_count_result env \<noteq> VK_SUCCESS \<or> enumerate_count env < 1 \<or>
       enumerate_fill_result env \<noteq> VK_SUCCESS \<or> createDevice_result env \<noteq> VK_SUCCESS))
   \<and> (\<forall>s'. initDevices env s = Inr s' \<longrightarrow>
         physicalDevice s' = physicalDevices_of env ! 0
         \<and> (\<forall>d ds. enumerate_fill_written env = d # ds \<longrightarrow> physicalDevice s' = d))"
proof -
  have first: "physicalDevices_of env ! 0 = d"
    if "\<not> enumerate_count env < 1" and "enumerate_fill_written env = d # ds" for d ds
  proof -
    have "replicate (unat (enumerate_count env)) (0 :: VkPhysicalDevice) \<noteq> []"
      using that(1) by (simp add: unat_gt_0)
    then show ?thesis
      using that(2) by (simp add: physicalDevices_of_def write_array_first)
  qed
  have abort: "(\<exists>e. initDevices env s = Inl e) \<longleftrightarrow>
      (enumerate_count_result env \<noteq> VK_SUCCESS \<or> enumerate_count env < 1 \<or>
       enumerate_fill_result env \<noteq> VK_SUCCESS \<or> createDevice_result env \<noteq> VK_SUCCESS)"
    by (simp add: initDevices_def Let_def)
  have sel: "physicalDevice s' = physicalDevices_of env ! 0 \<and> \<not> enumerate_count env < 1"
    if "initDevices env s = Inr s'" for s'
    using that by (auto simp add: initDevices_def Let_def split: if_splits)
  from abort sel first show ?thesis
    by metis
qed

text \<open>
  Two devices, all calls succeed: the first device is chosen. No device reported: exit.
\<close>

theorem initDevices_selects_first_witness:
  "initDevices
     \<lparr> enumerate_count_result = VK_SUCCESS, enumerate_count = 2,
       enumerate_fill_result = VK_SUCCESS, enumerate_fill_count = 2,
       enumerate_fill_written = [5, 9],
       createDevice_result = VK_SUCCESS, createDevice_device = 11 \<rparr>
     \<lparr>physicalDevice = 0, device = 0, surface = 0, colorFormat = 0, colorSpace_m = 0\<rparr> =
   Inr \<lparr>physicalDevice = 5, device = 11, surface = 0, colorFormat = 0, colorSpace_m = 0\<rparr>
   \<and> (\<exists>e. initDevices
     \<lparr> enumerate_count_result = VK_SUCCESS, enumerate_count = 0,
       enumerate_fill_result = VK_SUCCESS, enumerate_fill_count = 0,
       enumerate_fill_written = [],
       createDevice_result = VK_SUCCESS, createDevice_device = 11 \<rparr>
     \<lparr>physicalDevice = 0, device = 0, surface = 0, colorFormat = 0, colorSpace_m = 0\<rparr> = Inl e)"
  using initDevices_selects_first [of
     "\<lparr> enumerate_count_result = VK_SUCCESS, enumerate_count = 2,
       enumerate_fill_result = VK_SUCCESS, enumerate_fill_count = 2,
       enumerate_fill_written = [5, 9],
       createDevice_result = VK_SUCCESS, createDevice_device = 11 \<rparr>"
     "\<lparr>physicalDevice = 0, device = 0, surface = 0, colorFormat = 0, colorSpace_m = 0\<rparr>"]
   initDevices_selects_first [of
     "\<lparr> enumerate_count_result = VK_SUCCESS, enumerate_count = 0,
       enumerate_fill_result = VK_SUCCESS, enumerate_fill_count = 0,
       enumerate_fill_written = [],
       createDevice_result = VK_SUCCESS, createDevice_device = 11 \<rparr>"
     "\<lparr>physicalDevice = 0, device = 0, surface = 0, colorFormat = 0, colorSpace_m = 0\<rparr>"]
  by (simp add: initDevices_def Let_def physicalDevices_of_def write_array_def)

text \<open>
  The enumeration succeeds with one device and \<^verbatim>\<open>vkCreateDevice\<close> fails:
  \<^verbatim>\<open>initDevices\<close> exits.
\<close>

theorem initDevices_abort_counterexample:
  "initDevices
     \<lparr> enumerate_count_result = VK_SUCCESS, enumerate_count = 1,
       enumerate_fill_result = VK_SUCCESS, enumerate_fill_count = 1,
       enumerate_fill_written = [5],
       createDevice_result = VK_ERROR_INITIALIZATION_FAILED, createDevice_device = 0 \<rparr>
     \<lparr>physicalDevice = 0, device = 0, surface = 0, colorFormat = 0, colorSpace_m = 0\<rparr> =
   Inl (ExitOnError ''Failed to create a Vulkan logical device.'')"
  by (simp add: initDevices_def Let_def VK_SUCCESS_def VK_ERROR_INITIALIZATION_FAILED_def)

end
